theory Spec2Isabelle
  imports Main
begin

section \<open>Values shared by all tools\<close>

text \<open>
  The tools of the repository are handlers of type
  \<^verbatim>\<open>func(ctx, params goai.CallToolParams) (goai.CallToolResult, error)\<close>.
  The embedding keeps what a handler returns and what it asks of its collaborators
  (the process executor, the remote repository client). Logging and trace spans only
  observe a call and never change what is returned; they are left out.
\<close>

subsection \<open>Go errors\<close>

text \<open>
  An error is a value with a message. \<open>SyntaxError\<close> and \<open>UnmarshalTypeError\<close> are the
  two errors of \<^verbatim>\<open>encoding/json\<close> that decoding into a struct of strings, booleans
  and string slices can produce; \<open>ErrorString\<close> is an error made of a message alone (one
  built by \<^verbatim>\<open>fmt.Errorf\<close> without \<^verbatim>\<open>%w\<close>, or one handed back by a collaborator);
  \<open>WrapError p e\<close> is \<^verbatim>\<open>fmt.Errorf(p + "%w", e)\<close>.
\<close>

datatype go_error =
    SyntaxError string
  | UnmarshalTypeError string string string
  | ErrorString string
  | WrapError string go_error

fun Error :: "go_error \<Rightarrow> string" where
  "Error (SyntaxError msg) = msg"
| "Error (UnmarshalTypeError val field ty) =
     (if field \<noteq> [] then ''json: cannot unmarshal '' @ val @ '' into Go struct field .'' @ field @ '' of type '' @ ty
      else ''json: cannot unmarshal '' @ val @ '' into Go value of type '' @ ty)"
| "Error (ErrorString msg) = msg"
| "Error (WrapError p e) = p @ Error e"

subsection \<open>The result envelope\<close>

record ToolResultContent =
  Type :: string
  Text :: string

record CallToolResult =
  Content :: "ToolResultContent list"
  IsError :: bool

text \<open>The zero value \<^verbatim>\<open>goai.CallToolResult{}\<close>.\<close>

definition emptyResult :: CallToolResult where
  "emptyResult = \<lparr>Content = [], IsError = False\<rparr>"

text \<open>
  Modelled from the spec: \<^verbatim>\<open>returnErrorOutput\<close> is called by the handlers and defined
  in a file that is not part of the sources at hand. The spec describes its result as
  the envelope with \<open>is_error = true\<close> that carries the error as a readable text payload.
\<close>

definition returnErrorOutput :: "go_error \<Rightarrow> CallToolResult" where
  "returnErrorOutput err = \<lparr>Content = [\<lparr>Type = ''text'', Text = Error err\<rparr>], IsError = True\<rparr>"

subsection \<open>JSON arguments\<close>

text \<open>
  \<^verbatim>\<open>params.Arguments\<close> is a \<^verbatim>\<open>json.RawMessage\<close>. \<^verbatim>\<open>json.Unmarshal\<close> first scans the
  bytes: bytes that are no JSON text give a syntax error, the others denote a value.
  The raw message is represented by the outcome of that scan: \<open>Invalid msg\<close> with the
  scanner's message, or \<open>Valid v\<close> with the value. Object members are kept in the order
  of the text, duplicates included; a number keeps its literal.
\<close>

datatype json =
    JNull
  | JBool bool
  | JNumber string
  | JString string
  | JArray "json list"
  | JObject "(string \<times> json) list"

datatype RawMessage = Invalid string | Valid json

text \<open>The name \<^verbatim>\<open>encoding/json\<close> gives a value in an \<^verbatim>\<open>UnmarshalTypeError\<close>.\<close>

fun kind_of :: "json \<Rightarrow> string" where
  "kind_of JNull = ''null''"
| "kind_of (JBool b) = ''bool''"
| "kind_of (JNumber n) = ''number''"
| "kind_of (JString s) = ''string''"
| "kind_of (JArray vs) = ''array''"
| "kind_of (JObject ms) = ''object''"

text \<open>
  A member name selects a struct field when the two are equal after folding
  (\<^verbatim>\<open>foldName\<close> of \<^verbatim>\<open>encoding/json\<close>): ASCII letters are upper-cased, and the two
  non-ASCII runes whose simple case folding is an ASCII letter, U+017F (bytes C5 BF,
  folding to S) and U+212A (bytes E2 84 AA, folding to K), are replaced by it. All field
  names of this repository are ASCII and pairwise different after folding, so the
  preference of an exact match over a folded one never decides anything.
\<close>

definition upper :: "char \<Rightarrow> char" where
  "upper c = (let n = (of_char c :: nat) in if 97 \<le> n \<and> n \<le> 122 then char_of (n - 32) else c)"

fun foldName :: "string \<Rightarrow> string" where
  "foldName (a # b # c # cs) =
     (if a = CHR 0xE2 \<and> b = CHR 0x84 \<and> c = CHR 0xAA then CHR ''K'' # foldName cs
      else if a = CHR 0xC5 \<and> b = CHR 0xBF then CHR ''S'' # foldName (c # cs)
      else upper a # foldName (b # c # cs))"
| "foldName [a, b] =
     (if a = CHR 0xC5 \<and> b = CHR 0xBF then [CHR ''S''] else [upper a, upper b])"
| "foldName [a] = [upper a]"
| "foldName [] = []"

definition key_matches :: "string \<Rightarrow> string \<Rightarrow> bool" where
  "key_matches key name = (foldName key = foldName name)"

text \<open>\<^verbatim>\<open>saveError\<close>: decoding goes on after a type mismatch and reports the first one.\<close>

fun saveError :: "go_error option \<Rightarrow> go_error option \<Rightarrow> go_error option" where
  "saveError None e = e"
| "saveError (Some x) e = Some x"

text \<open>
  Storing a JSON value into a field. \<^verbatim>\<open>null\<close> leaves a string or a boolean as it is
  and makes a slice nil; a value of another kind leaves the field as it is and is a
  type mismatch. Each function returns the field's new value and the error, if any.
\<close>

fun store_string :: "string \<Rightarrow> json \<Rightarrow> string \<Rightarrow> string \<times> go_error option" where
  "store_string field (JString s) cur = (s, None)"
| "store_string field JNull cur = (cur, None)"
| "store_string field v cur = (cur, Some (UnmarshalTypeError (kind_of v) field ''string''))"

fun store_bool :: "string \<Rightarrow> json \<Rightarrow> bool \<Rightarrow> bool \<times> go_error option" where
  "store_bool field (JBool b) cur = (b, None)"
| "store_bool field JNull cur = (cur, None)"
| "store_bool field v cur = (cur, Some (UnmarshalTypeError (kind_of v) field ''bool''))"

text \<open>
  The elements of an array are stored one by one into the slice, the \<open>i\<close>-th into the
  \<open>i\<close>-th element the slice already has, or into a fresh empty string.
\<close>

fun store_elems :: "string \<Rightarrow> json list \<Rightarrow> string list \<Rightarrow> string list \<times> go_error option" where
  "store_elems field [] cur = ([], None)"
| "store_elems field (v # vs) cur =
     (let (x, e) = store_string field v (case cur of [] \<Rightarrow> [] | c # _ \<Rightarrow> c);
          (xs, e') = store_elems field vs (tl cur)
      in (x # xs, saveError e e'))"

fun store_strings :: "string \<Rightarrow> json \<Rightarrow> string list \<Rightarrow> string list \<times> go_error option" where
  "store_strings field (JArray vs) cur = store_elems field vs cur"
| "store_strings field JNull cur = ([], None)"
| "store_strings field v cur = (cur, Some (UnmarshalTypeError (kind_of v) field ''[]string''))"

text \<open>
  \<^verbatim>\<open>json.Unmarshal(raw, &input)\<close> for a struct \<open>input\<close> that starts as its zero value:
  \<open>members\<close> stores the members of an object in order, \<open>ty\<close> is the Go name of the
  struct type. \<^verbatim>\<open>null\<close> decodes to the untouched zero value; a value that is neither
  an object nor \<^verbatim>\<open>null\<close> is a type mismatch.
\<close>

definition Unmarshal ::
  "string \<Rightarrow> ((string \<times> json) list \<Rightarrow> 'a \<Rightarrow> go_error option \<Rightarrow> 'a \<times> go_error option) \<Rightarrow> 'a
     \<Rightarrow> RawMessage \<Rightarrow> go_error + 'a" where
  "Unmarshal ty members zero raw =
     (case raw of
        Invalid msg \<Rightarrow> Inl (SyntaxError msg)
      | Valid v \<Rightarrow>
          (case v of
             JNull \<Rightarrow> Inr zero
           | JObject ms \<Rightarrow>
               (case members ms zero None of
                  (inp, None) \<Rightarrow> Inr inp
                | (inp, Some e) \<Rightarrow> Inl e)
           | _ \<Rightarrow> Inl (UnmarshalTypeError (kind_of v) [] ty)))"

section \<open>The weather tool\<close>

record weather_input =
  Location :: string

fun weather_members ::
  "(string \<times> json) list \<Rightarrow> weather_input \<Rightarrow> go_error option \<Rightarrow> weather_input \<times> go_error option" where
  "weather_members [] inp err = (inp, err)"
| "weather_members ((k, v) # ms) inp err =
     (if key_matches k ''location'' then
        (let (x, e) = store_string ''location'' v (Location inp)
         in weather_members ms (inp\<lparr>Location := x\<rparr>) (saveError err e))
      else weather_members ms inp err)"

definition weather_type :: string where
  "weather_type = ''struct { Location string '' @ [CHR 0x22] @ ''json:'' @ [CHR 0x5C, CHR 0x22]
     @ ''location'' @ [CHR 0x5C, CHR 0x22, CHR 0x22] @ '' }''"

definition Unmarshal_weather :: "RawMessage \<Rightarrow> go_error + weather_input" where
  "Unmarshal_weather = Unmarshal weather_type weather_members \<lparr>Location = []\<rparr>"

text \<open>The degree sign of the reply is the two bytes C2 B0.\<close>

definition GetWeather_Handler :: "RawMessage \<Rightarrow> CallToolResult \<times> go_error option" where
  "GetWeather_Handler arguments =
     (case Unmarshal_weather arguments of
        Inl err \<Rightarrow> (emptyResult, Some err)
      | Inr input \<Rightarrow>
          (\<lparr>Content = [\<lparr>Type = ''text'',
                         Text = ''Weather in '' @ Location input @ '': Sunny, 72'' @ [CHR 0xC2, CHR 0xB0] @ ''F''\<rparr>],
            IsError = False\<rparr>, None))"

section \<open>Running processes\<close>

text \<open>
  \<^verbatim>\<open>exec.Command(name, arg...)\<close> builds a command whose argument vector is the name
  followed by the arguments. Running it is the operating system's part: a run is a
  function from the command to the combined output and the error, which is a parameter
  of the handlers (for the shell tool it is the \<^verbatim>\<open>CommandExecutor\<close> the tool holds, for
  the version-control tool \<^verbatim>\<open>cmd.CombinedOutput\<close>). A handler returns, next to its
  results, the commands it has run, in order.
\<close>

record Cmd =
  cmd_Args :: "string list"

definition exec_Command :: "string \<Rightarrow> string list \<Rightarrow> Cmd" where
  "exec_Command name arg = \<lparr>cmd_Args = name # arg\<rparr>"

type_synonym run = "Cmd \<Rightarrow> string \<times> go_error option"

section \<open>The shell tool\<close>

record bash_input =
  bash_Command :: string
  bash_Args :: "string list"

fun bash_members ::
  "(string \<times> json) list \<Rightarrow> bash_input \<Rightarrow> go_error option \<Rightarrow> bash_input \<times> go_error option" where
  "bash_members [] inp err = (inp, err)"
| "bash_members ((k, v) # ms) inp err =
     (if key_matches k ''command'' then
        (let (x, e) = store_string ''command'' v (bash_Command inp)
         in bash_members ms (inp\<lparr>bash_Command := x\<rparr>) (saveError err e))
      else if key_matches k ''args'' then
        (let (x, e) = store_strings ''args'' v (bash_Args inp)
         in bash_members ms (inp\<lparr>bash_Args := x\<rparr>) (saveError err e))
      else bash_members ms inp err)"

definition bash_type :: string where
  "bash_type = ''struct { Command string '' @ [CHR 0x22] @ ''json:'' @ [CHR 0x5C, CHR 0x22]
     @ ''command'' @ [CHR 0x5C, CHR 0x22, CHR 0x22] @ ''; Args []string '' @ [CHR 0x22] @ ''json:''
     @ [CHR 0x5C, CHR 0x22] @ ''args'' @ [CHR 0x5C, CHR 0x22, CHR 0x22] @ '' }''"

definition Unmarshal_bash :: "RawMessage \<Rightarrow> go_error + bash_input" where
  "Unmarshal_bash = Unmarshal bash_type bash_members \<lparr>bash_Command = [], bash_Args = []\<rparr>"

definition BashAllInOneTool_Handler ::
  "run \<Rightarrow> RawMessage \<Rightarrow> (CallToolResult \<times> go_error option) \<times> Cmd list" where
  "BashAllInOneTool_Handler cmdExecutor arguments =
     (case Unmarshal_bash arguments of
        Inl err \<Rightarrow> ((emptyResult, Some (WrapError ''failed to parse input: '' err)), [])
      | Inr input \<Rightarrow>
          (let cmd = exec_Command ''bash'' ([''-c'', bash_Command input] @ bash_Args input);
               (output, err) = cmdExecutor cmd
           in case err of
                Some e \<Rightarrow> ((returnErrorOutput e, None), [cmd])
              | None \<Rightarrow>
                  ((\<lparr>Content = [\<lparr>Type = ''text'', Text = output\<rparr>], IsError = False\<rparr>, None), [cmd])))"

section \<open>The version-control tool\<close>

record GitConfig =
  DefaultRepoPath :: string
  BlockedCommands :: "string list"

record Git =
  config :: GitConfig

record git_input =
  git_Command :: string
  git_RepoPath :: string
  git_Args :: "string list"

fun git_members ::
  "(string \<times> json) list \<Rightarrow> git_input \<Rightarrow> go_error option \<Rightarrow> git_input \<times> go_error option" where
  "git_members [] inp err = (inp, err)"
| "git_members ((k, v) # ms) inp err =
     (if key_matches k ''command'' then
        (let (x, e) = store_string ''command'' v (git_Command inp)
         in git_members ms (inp\<lparr>git_Command := x\<rparr>) (saveError err e))
      else if key_matches k ''repo_path'' then
        (let (x, e) = store_string ''repo_path'' v (git_RepoPath inp)
         in git_members ms (inp\<lparr>git_RepoPath := x\<rparr>) (saveError err e))
      else if key_matches k ''args'' then
        (let (x, e) = store_strings ''args'' v (git_Args inp)
         in git_members ms (inp\<lparr>git_Args := x\<rparr>) (saveError err e))
      else git_members ms inp err)"

definition git_type :: string where
  "git_type = ''struct { Command string '' @ [CHR 0x22] @ ''json:'' @ [CHR 0x5C, CHR 0x22]
     @ ''command'' @ [CHR 0x5C, CHR 0x22, CHR 0x22] @ ''; RepoPath string '' @ [CHR 0x22] @ ''json:''
     @ [CHR 0x5C, CHR 0x22] @ ''repo_path'' @ [CHR 0x5C, CHR 0x22, CHR 0x22] @ ''; Args []string ''
     @ [CHR 0x22] @ ''json:'' @ [CHR 0x5C, CHR 0x22] @ ''args'' @ [CHR 0x5C, CHR 0x22, CHR 0x22] @ '' }''"

definition Unmarshal_git :: "RawMessage \<Rightarrow> go_error + git_input" where
  "Unmarshal_git =
     Unmarshal git_type git_members \<lparr>git_Command = [], git_RepoPath = [], git_Args = []\<rparr>"

text \<open>The handler is a method of \<open>Git\<close>; it reads nothing of its receiver but the logger.\<close>

definition GitAllInOneTool_Handler ::
  "Git \<Rightarrow> run \<Rightarrow> RawMessage \<Rightarrow> (CallToolResult \<times> go_error option) \<times> Cmd list" where
  "GitAllInOneTool_Handler g CombinedOutput arguments =
     (case Unmarshal_git arguments of
        Inl err \<Rightarrow> ((emptyResult, Some (WrapError ''failed to unmarshal input: '' err)), [])
      | Inr input \<Rightarrow>
          (let args = [''-C'', git_RepoPath input, git_Command input] @ git_Args input;
               cmd = exec_Command ''git'' args;
               (output, err) = CombinedOutput cmd
           in case err of
                Some e \<Rightarrow> ((returnErrorOutput e, None), [cmd])
              | None \<Rightarrow>
                  ((\<lparr>Content = [\<lparr>Type = ''text'', Text = output\<rparr>], IsError = False\<rparr>, None), [cmd])))"

section \<open>The repository tool\<close>

subsection \<open>The remote client\<close>

text \<open>
  The request values the handler builds. A pointer field is an option, \<^verbatim>\<open>nil\<close> being
  \<open>None\<close>; only the fields the handler reads or sets are kept, every other field of
  the client library's structs stays at its zero value.
\<close>

record Repository =
  repo_Name :: "string option"
  repo_Description :: "string option"
  repo_Private :: "bool option"

record GitObject =
  obj_Type :: "string option"
  obj_SHA :: "string option"
  obj_URL :: "string option"

record Reference =
  ref_Ref :: "string option"
  ref_Object :: "GitObject option"

record RequiredStatusChecks =
  Strict :: bool

record PullRequestReviewsEnforcementRequest =
  RequiredApprovingReviewCount :: int

record ProtectionRequest =
  req_RequiredStatusChecks :: "RequiredStatusChecks option"
  req_RequiredPullRequestReviews :: "PullRequestReviewsEnforcementRequest option"

text \<open>
  The client is the remote side: each of its methods takes the state \<open>'s\<close> of the remote
  service and returns what the Go method returns (the HTTP response, which the handler
  drops everywhere, left out) and the new state. \<open>'v\<close> stands for the values the
  handler passes on without looking into them (a repository, a list of branches, a
  protection).
\<close>

record ('s, 'v) GitHubClient =
  Repositories_Create :: "string \<Rightarrow> Repository \<Rightarrow> 's \<Rightarrow> ('v \<times> go_error option) \<times> 's"
  Repositories_Delete :: "string \<Rightarrow> string \<Rightarrow> 's \<Rightarrow> go_error option \<times> 's"
  Repositories_Edit :: "string \<Rightarrow> string \<Rightarrow> Repository \<Rightarrow> 's \<Rightarrow> ('v \<times> go_error option) \<times> 's"
  Repositories_CreateFork :: "string \<Rightarrow> string \<Rightarrow> 's \<Rightarrow> ('v \<times> go_error option) \<times> 's"
  Repositories_ListBranches :: "string \<Rightarrow> string \<Rightarrow> 's \<Rightarrow> ('v \<times> go_error option) \<times> 's"
  Git_GetRef :: "string \<Rightarrow> string \<Rightarrow> string \<Rightarrow> 's \<Rightarrow> (Reference option \<times> go_error option) \<times> 's"
  Git_CreateRef :: "string \<Rightarrow> string \<Rightarrow> Reference \<Rightarrow> 's \<Rightarrow> (Reference option \<times> go_error option) \<times> 's"
  Repositories_UpdateBranchProtection ::
    "string \<Rightarrow> string \<Rightarrow> string \<Rightarrow> ProtectionRequest \<Rightarrow> 's \<Rightarrow> ('v \<times> go_error option) \<times> 's"

text \<open>The calls a handler has issued, with their arguments, in order.\<close>

datatype remote_call =
    Call_Create string Repository
  | Call_Delete string string
  | Call_Edit string string Repository
  | Call_CreateFork string string
  | Call_ListBranches string string
  | Call_GetRef string string string
  | Call_CreateRef string string Reference
  | Call_UpdateBranchProtection string string string ProtectionRequest

text \<open>
  The \<^verbatim>\<open>result interface{}\<close> slot: nothing, a value of the client, the status map of a
  deletion, or the reference pointer of a branch creation. \<^verbatim>\<open>mustMarshal\<close>, which turns
  it into the JSON text of the reply, is defined outside the sources at hand and is a
  parameter of the handler.
\<close>

datatype 'v result_value =
    NilResult
  | RemoteValue 'v
  | StatusMap "(string \<times> string) list"
  | ReferenceValue "Reference option"

subsection \<open>The handler\<close>

record repository_input =
  Operation :: string
  Owner :: string
  Repo :: string
  Description :: string
  Private :: bool
  Branch :: string
  SourceBranch :: string

fun repository_members ::
  "(string \<times> json) list \<Rightarrow> repository_input \<Rightarrow> go_error option
     \<Rightarrow> repository_input \<times> go_error option" where
  "repository_members [] inp err = (inp, err)"
| "repository_members ((k, v) # ms) inp err =
     (if key_matches k ''operation'' then
        (let (x, e) = store_string ''operation'' v (Operation inp)
         in repository_members ms (inp\<lparr>Operation := x\<rparr>) (saveError err e))
      else if key_matches k ''owner'' then
        (let (x, e) = store_string ''owner'' v (Owner inp)
         in repository_members ms (inp\<lparr>Owner := x\<rparr>) (saveError err e))
      else if key_matches k ''repo'' then
        (let (x, e) = store_string ''repo'' v (Repo inp)
         in repository_members ms (inp\<lparr>Repo := x\<rparr>) (saveError err e))
      else if key_matches k ''description'' then
        (let (x, e) = store_string ''description'' v (Description inp)
         in repository_members ms (inp\<lparr>Description := x\<rparr>) (saveError err e))
      else if key_matches k ''private'' then
        (let (x, e) = store_bool ''private'' v (Private inp)
         in repository_members ms (inp\<lparr>Private := x\<rparr>) (saveError err e))
      else if key_matches k ''branch'' then
        (let (x, e) = store_string ''branch'' v (Branch inp)
         in repository_members ms (inp\<lparr>Branch := x\<rparr>) (saveError err e))
      else if key_matches k ''source_branch'' then
        (let (x, e) = store_string ''source_branch'' v (SourceBranch inp)
         in repository_members ms (inp\<lparr>SourceBranch := x\<rparr>) (saveError err e))
      else repository_members ms inp err)"

definition tagged :: "string \<Rightarrow> string \<Rightarrow> string" where
  "tagged decl name =
     decl @ '' '' @ [CHR 0x22] @ ''json:'' @ [CHR 0x5C, CHR 0x22] @ name @ [CHR 0x5C, CHR 0x22, CHR 0x22]"

definition repository_type :: string where
  "repository_type = ''struct { '' @ tagged ''Operation string'' ''operation'' @ ''; ''
     @ tagged ''Owner string'' ''owner'' @ ''; '' @ tagged ''Repo string'' ''repo'' @ ''; ''
     @ tagged ''Description string'' ''description'' @ ''; '' @ tagged ''Private bool'' ''private''
     @ ''; '' @ tagged ''Branch string'' ''branch'' @ ''; ''
     @ tagged ''SourceBranch string'' ''source_branch'' @ '' }''"

definition Unmarshal_repository :: "RawMessage \<Rightarrow> go_error + repository_input" where
  "Unmarshal_repository =
     Unmarshal repository_type repository_members
       \<lparr>Operation = [], Owner = [], Repo = [], Description = [], Private = False, Branch = [],
        SourceBranch = []\<rparr>"

text \<open>
  What a call of the handler comes to: it returns an envelope and an error, or it
  panics (a \<^verbatim>\<open>nil\<close> pointer is dereferenced).
\<close>

datatype outcome = Panic | Return CallToolResult "go_error option"

text \<open>The handler's last part, after the \<^verbatim>\<open>switch\<close>: \<open>err\<close> is the function's \<^verbatim>\<open>err\<close>.\<close>

definition after_switch ::
  "('v result_value \<Rightarrow> string) \<Rightarrow> repository_input \<Rightarrow> 'v result_value \<Rightarrow> go_error option \<Rightarrow> outcome" where
  "after_switch mustMarshal input result err =
     (case err of
        Some e \<Rightarrow>
          Return (returnErrorOutput
                    (WrapError (''github repository '' @ Operation input @ '' error: '') e)) None
      | None \<Rightarrow>
          Return \<lparr>Content = [\<lparr>Type = ''json'', Text = mustMarshal result\<rparr>], IsError = False\<rparr> None)"

text \<open>
  In the \<^verbatim>\<open>create_branch\<close> case \<^verbatim>\<open>ref, _, err := ...\<close> declares an \<^verbatim>\<open>err\<close> of its own:
  the function's \<^verbatim>\<open>err\<close> is still \<^verbatim>\<open>nil\<close> after the case, and the error of
  \<^verbatim>\<open>CreateRef\<close> is assigned to the blank identifier. The arguments of \<^verbatim>\<open>CreateRef\<close>,
  \<^verbatim>\<open>ref.Object.SHA\<close> among them, are evaluated before the call.
\<close>

definition handleRepositoryOperation ::
  "('s, 'v) GitHubClient \<Rightarrow> ('v result_value \<Rightarrow> string) \<Rightarrow> RawMessage \<Rightarrow> 's
     \<Rightarrow> outcome \<times> remote_call list \<times> 's" where
  "handleRepositoryOperation client mustMarshal arguments s =
     (case Unmarshal_repository arguments of
        Inl err \<Rightarrow> (Return emptyResult (Some (WrapError ''failed to unmarshal input: '' err)), [], s)
      | Inr input \<Rightarrow>
          if Operation input = ''create'' then
            (let r = \<lparr>repo_Name = Some (Repo input), repo_Description = Some (Description input),
                       repo_Private = Some (Private input)\<rparr>;
                 ((result, err), s') = Repositories_Create client [] r s
             in (after_switch mustMarshal input (RemoteValue result) err, [Call_Create [] r], s'))
          else if Operation input = ''delete'' then
            (let (err, s') = Repositories_Delete client (Owner input) (Repo input) s;
                 result = (if err = None then StatusMap [(''status'', ''deleted'')] else NilResult)
             in (after_switch mustMarshal input result err,
                 [Call_Delete (Owner input) (Repo input)], s'))
          else if Operation input = ''update'' then
            (let r = \<lparr>repo_Name = None, repo_Description = Some (Description input),
                       repo_Private = Some (Private input)\<rparr>;
                 ((result, err), s') = Repositories_Edit client (Owner input) (Repo input) r s
             in (after_switch mustMarshal input (RemoteValue result) err,
                 [Call_Edit (Owner input) (Repo input) r], s'))
          else if Operation input = ''fork'' then
            (let ((result, err), s') = Repositories_CreateFork client (Owner input) (Repo input) s
             in (after_switch mustMarshal input (RemoteValue result) err,
                 [Call_CreateFork (Owner input) (Repo input)], s'))
          else if Operation input = ''list_branches'' then
            (let ((result, err), s') = Repositories_ListBranches client (Owner input) (Repo input) s
             in (after_switch mustMarshal input (RemoteValue result) err,
                 [Call_ListBranches (Owner input) (Repo input)], s'))
          else if Operation input = ''create_branch'' then
            (let name = ''refs/heads/'' @ SourceBranch input;
                 get = Call_GetRef (Owner input) (Repo input) name;
                 ((ref, err), s') = Git_GetRef client (Owner input) (Repo input) name s
             in case err of
                  Some e \<Rightarrow> (Return emptyResult (Some e), [get], s')
                | None \<Rightarrow>
                    (case ref of
                       None \<Rightarrow> (Panic, [get], s')
                     | Some rf \<Rightarrow>
                         (case ref_Object rf of
                            None \<Rightarrow> (Panic, [get], s')
                          | Some ob \<Rightarrow>
                              (let new = \<lparr>ref_Ref = Some (''refs/heads/'' @ Branch input),
                                           ref_Object = Some \<lparr>obj_Type = None, obj_SHA = obj_SHA ob,
                                                              obj_URL = None\<rparr>\<rparr>;
                                   ((result, ignored), s'') =
                                     Git_CreateRef client (Owner input) (Repo input) new s'
                               in (after_switch mustMarshal input (ReferenceValue result) None,
                                   [get, Call_CreateRef (Owner input) (Repo input) new], s'')))))
          else if Operation input = ''protect_branch'' then
            (let r = \<lparr>req_RequiredStatusChecks = Some \<lparr>Strict = True\<rparr>,
                       req_RequiredPullRequestReviews = Some \<lparr>RequiredApprovingReviewCount = 1\<rparr>\<rparr>;
                 ((result, err), s') =
                   Repositories_UpdateBranchProtection client (Owner input) (Repo input) (Branch input) r s
             in (after_switch mustMarshal input (RemoteValue result) err,
                 [Call_UpdateBranchProtection (Owner input) (Repo input) (Branch input) r], s'))
          else
            (Return (returnErrorOutput (ErrorString (''unsupported operation: '' @ Operation input))) None,
             [], s))"

section \<open>Properties of results, and sample collaborators\<close>

text \<open>An envelope with exactly one content element, of the given type.\<close>

definition single_content :: "string \<Rightarrow> CallToolResult \<Rightarrow> bool" where
  "single_content ty res = (length (Content res) = 1 \<and> list_all (\<lambda>c. Type c = ty) (Content res))"

text \<open>
  An outcome of the repository handler that is not a success, or is one with a single
  \<open>json\<close> content element.
\<close>

definition failure_or_json :: "outcome \<Rightarrow> bool" where
  "failure_or_json out =
     (case out of
        Panic \<Rightarrow> True
      | Return res err \<Rightarrow> err \<noteq> None \<or> IsError res \<or> single_content ''json'' res)"

text \<open>A text includes another: the second string occurs in the first.\<close>

fun starts_with :: "string \<Rightarrow> string \<Rightarrow> bool" where
  "starts_with s [] = True"
| "starts_with [] (p # ps) = False"
| "starts_with (c # cs) (p # ps) = (c = p \<and> starts_with cs ps)"

fun contains :: "string \<Rightarrow> string \<Rightarrow> bool" where
  "contains [] sub = (sub = [])"
| "contains (c # cs) sub = (starts_with (c # cs) sub \<or> contains cs sub)"

text \<open>
  A run that fails as \<^verbatim>\<open>git -C /tmp/nonexistent status\<close> does: the diagnosis is in the
  output, and the error of a process that exits with a status other than zero reads
  \<^verbatim>\<open>exit status N\<close>.
\<close>

definition failed_run :: run where
  "failed_run cmd =
     (''fatal: cannot change to /tmp/nonexistent: No such file or directory'',
      Some (ErrorString ''exit status 128''))"

definition echo_run :: run where
  "echo_run cmd = (concat (cmd_Args cmd), None)"

text \<open>
  A remote service whose state counts the calls it has served: the branch \<open>main\<close>
  exists, every other one does not, and the creation of a reference is refused.
\<close>

definition sample_client :: "(nat, string) GitHubClient" where
  "sample_client =
     \<lparr>Repositories_Create = (\<lambda>org r s. ((''repository'', None), Suc s)),
      Repositories_Delete = (\<lambda>owner repo s. (None, Suc s)),
      Repositories_Edit = (\<lambda>owner repo r s. ((''repository'', None), Suc s)),
      Repositories_CreateFork = (\<lambda>owner repo s. ((''fork'', None), Suc s)),
      Repositories_ListBranches = (\<lambda>owner repo s. ((''branches'', None), Suc s)),
      Git_GetRef = (\<lambda>owner repo name s.
         if name = ''refs/heads/main''
         then ((Some \<lparr>ref_Ref = Some name,
                       ref_Object = Some \<lparr>obj_Type = Some ''commit'', obj_SHA = Some ''c0ffee'',
                                          obj_URL = None\<rparr>\<rparr>, None), Suc s)
         else ((None, Some (ErrorString ''404 Not Found'')), Suc s)),
      Git_CreateRef = (\<lambda>owner repo r s.
         ((None, Some (ErrorString ''422 Reference already exists'')), Suc s)),
      Repositories_UpdateBranchProtection = (\<lambda>owner repo branch r s. ((''protection'', None), Suc s))\<rparr>"

fun sample_marshal :: "string result_value \<Rightarrow> string" where
  "sample_marshal NilResult = ''null''"
| "sample_marshal (RemoteValue v) = v"
| "sample_marshal (StatusMap m) = concat (map (\<lambda>(k, v). k @ '':'' @ v) m)"
| "sample_marshal (ReferenceValue None) = ''null''"
| "sample_marshal (ReferenceValue (Some r)) = ''reference''"

definition sample_git :: "string list \<Rightarrow> Git" where
  "sample_git blocked = \<lparr>config = \<lparr>DefaultRepoPath = ''/srv/repo'', BlockedCommands = blocked\<rparr>\<rparr>"

definition bash_request :: "string \<Rightarrow> string list \<Rightarrow> RawMessage" where
  "bash_request command args =
     Valid (JObject [(''command'', JString command), (''args'', JArray (map JString args))])"

definition git_request :: "string \<Rightarrow> string \<Rightarrow> string list \<Rightarrow> RawMessage" where
  "git_request command path args =
     Valid (JObject [(''command'', JString command), (''repo_path'', JString path),
                     (''args'', JArray (map JString args))])"

definition operation_only :: "string \<Rightarrow> RawMessage" where
  "operation_only op = Valid (JObject [(''operation'', JString op)])"

definition branch_request :: "string \<Rightarrow> string \<Rightarrow> string \<Rightarrow> RawMessage" where
  "branch_request op branch source =
     Valid (JObject [(''operation'', JString op), (''owner'', JString ''octo''),
                     (''repo'', JString ''demo''), (''branch'', JString branch),
                     (''source_branch'', JString source)])"

section \<open>Decoding\<close>

lemmas unmarshal_defs = Unmarshal_def Unmarshal_weather_def Unmarshal_bash_def Unmarshal_git_def
  Unmarshal_repository_def key_matches_def upper_def

lemma store_elems_strings: "store_elems field (map JString xs) cur = (xs, None)"
  by (induction xs arbitrary: cur) simp_all

lemma Unmarshal_weather_location:
  "Unmarshal_weather (Valid (JObject [(''location'', JString l)])) = Inr \<lparr>Location = l\<rparr>"
  by (simp add: unmarshal_defs)

lemma Unmarshal_bash_request:
  "Unmarshal_bash (bash_request c xs) = Inr \<lparr>bash_Command = c, bash_Args = xs\<rparr>"
  by (simp add: unmarshal_defs bash_request_def store_elems_strings)

lemma Unmarshal_git_request:
  "Unmarshal_git (git_request c p xs) = Inr \<lparr>git_Command = c, git_RepoPath = p, git_Args = xs\<rparr>"
  by (simp add: unmarshal_defs git_request_def store_elems_strings)

lemma Unmarshal_operation_only:
  "Unmarshal_repository (operation_only op) =
     Inr \<lparr>Operation = op, Owner = [], Repo = [], Description = [], Private = False, Branch = [],
          SourceBranch = []\<rparr>"
  by (simp add: unmarshal_defs operation_only_def)

lemma Unmarshal_branch_request:
  "Unmarshal_repository (branch_request op b sb) =
     Inr \<lparr>Operation = op, Owner = ''octo'', Repo = ''demo'', Description = [], Private = False,
          Branch = b, SourceBranch = sb\<rparr>"
  by (simp add: unmarshal_defs branch_request_def)

lemma Unmarshal_object_Inr:
  "Unmarshal ty members zero (Valid (JObject ms)) = Inr inp \<Longrightarrow> inp = fst (members ms zero None)"
  by (auto simp: Unmarshal_def split: prod.splits option.splits)

lemma weather_members_absent:
  "\<forall>m\<in>set ms. \<not> key_matches (fst m) ''location'' \<Longrightarrow> weather_members ms inp err = (inp, err)"
  by (induction ms arbitrary: inp err) auto

lemma bash_members_command_absent:
  "\<forall>m\<in>set ms. \<not> key_matches (fst m) ''command'' \<Longrightarrow>
   bash_Command (fst (bash_members ms inp err)) = bash_Command inp"
  by (induction ms arbitrary: inp err) (auto split: prod.splits)

lemma git_members_repo_path_absent:
  "\<forall>m\<in>set ms. \<not> key_matches (fst m) ''repo_path'' \<Longrightarrow>
   git_RepoPath (fst (git_members ms inp err)) = git_RepoPath inp"
  by (induction ms arbitrary: inp err) (auto split: prod.splits)

lemma repository_members_operation_absent:
  "\<forall>m\<in>set ms. \<not> key_matches (fst m) ''operation'' \<Longrightarrow>
   Operation (fst (repository_members ms inp err)) = Operation inp"
  by (induction ms arbitrary: inp err) (auto split: prod.splits)

section \<open>The shape of what the repository handler returns\<close>

lemma after_switch_failure_or_json: "failure_or_json (after_switch mm inp r err)"
  by (cases err)
    (simp_all add: after_switch_def failure_or_json_def returnErrorOutput_def single_content_def)

lemma handler_failure_or_json: "failure_or_json (fst (handleRepositoryOperation client mm a s))"
proof (cases "Unmarshal_repository a")
  case (Inl e)
  then show ?thesis by (simp add: handleRepositoryOperation_def failure_or_json_def)
next
  case (Inr inp)
  have other: "failure_or_json Panic" "\<And>e. failure_or_json (Return emptyResult (Some e))"
    "\<And>e. failure_or_json (Return (returnErrorOutput e) None)"
    by (simp_all add: failure_or_json_def returnErrorOutput_def)
  show ?thesis
    using Inr
    by (simp add: handleRepositoryOperation_def Let_def after_switch_failure_or_json other
        split: prod.splits option.splits)
qed

section \<open>Malformed input\<close>

text \<open>
  Claim C1. Whenever the argument payload fails to decode into a tool's input
  structure, the handler of that tool (weather, shell, version control, repository)
  returns a non-nil error together with the empty envelope, whose content sequence is
  empty; no process is run and no remote call is issued.
\<close>

theorem decode_failure_is_transport_error:
  "(Unmarshal_weather a = Inl e \<longrightarrow> GetWeather_Handler a = (emptyResult, Some e))
   \<and> (Unmarshal_bash a = Inl e \<longrightarrow>
        BashAllInOneTool_Handler ex a =
          ((emptyResult, Some (WrapError ''failed to parse input: '' e)), []))
   \<and> (Unmarshal_git a = Inl e \<longrightarrow>
        GitAllInOneTool_Handler g run a =
          ((emptyResult, Some (WrapError ''failed to unmarshal input: '' e)), []))
   \<and> (Unmarshal_repository a = Inl e \<longrightarrow>
        handleRepositoryOperation client mm a s =
          (Return emptyResult (Some (WrapError ''failed to unmarshal input: '' e)), [], s))
   \<and> Content emptyResult = []"
  by (simp add: GetWeather_Handler_def BashAllInOneTool_Handler_def GitAllInOneTool_Handler_def
      handleRepositoryOperation_def emptyResult_def)

theorem decode_failure_is_transport_error_witness:
  "Unmarshal_weather (Invalid ''unexpected end of JSON input'')
     = Inl (SyntaxError ''unexpected end of JSON input'')
   \<and> GetWeather_Handler (Invalid ''unexpected end of JSON input'')
     = (emptyResult, Some (SyntaxError ''unexpected end of JSON input''))
   \<and> Unmarshal_bash (Invalid ''unexpected end of JSON input'')
     = Inl (SyntaxError ''unexpected end of JSON input'')
   \<and> BashAllInOneTool_Handler echo_run (Invalid ''unexpected end of JSON input'')
     = ((emptyResult,
         Some (WrapError ''failed to parse input: '' (SyntaxError ''unexpected end of JSON input''))), [])
   \<and> Unmarshal_git (Invalid ''unexpected end of JSON input'')
     = Inl (SyntaxError ''unexpected end of JSON input'')
   \<and> GitAllInOneTool_Handler (sample_git []) echo_run (Invalid ''unexpected end of JSON input'')
     = ((emptyResult,
         Some (WrapError ''failed to unmarshal input: '' (SyntaxError ''unexpected end of JSON input''))), [])
   \<and> Unmarshal_repository (Invalid ''unexpected end of JSON input'')
     = Inl (SyntaxError ''unexpected end of JSON input'')
   \<and> handleRepositoryOperation sample_client sample_marshal (Invalid ''unexpected end of JSON input'') 0
     = (Return emptyResult
          (Some (WrapError ''failed to unmarshal input: '' (SyntaxError ''unexpected end of JSON input''))),
        [], 0)"
  using decode_failure_is_transport_error
    [of "Invalid ''unexpected end of JSON input''" "SyntaxError ''unexpected end of JSON input''"
      echo_run "sample_git []" echo_run sample_client sample_marshal "0::nat"]
  by (simp add: unmarshal_defs)

section \<open>Routing of repository operations\<close>

text \<open>
  Claim C2. When the decoded operation is none of create, delete, update, fork,
  list_branches, create_branch and protect_branch, the repository handler returns the
  envelope with \<open>is_error = true\<close> and the text \<open>unsupported operation: <value>\<close>, with a
  nil error; it issues no remote call.
\<close>

theorem unsupported_operation_is_domain_failure:
  assumes "Unmarshal_repository a = Inr inp"
    and "Operation inp \<notin> {''create'', ''delete'', ''update'', ''fork'', ''list_branches'',
                           ''create_branch'', ''protect_branch''}"
  shows "handleRepositoryOperation client mm a s =
           (Return \<lparr>Content = [\<lparr>Type = ''text'', Text = ''unsupported operation: '' @ Operation inp\<rparr>],
                    IsError = True\<rparr> None, [], s)"
  using assms by (simp add: handleRepositoryOperation_def returnErrorOutput_def)

theorem unsupported_operation_is_domain_failure_witness:
  "Unmarshal_repository (operation_only ''rename'') =
     Inr \<lparr>Operation = ''rename'', Owner = [], Repo = [], Description = [], Private = False,
          Branch = [], SourceBranch = []\<rparr>
   \<and> ''rename'' \<notin> {''create'', ''delete'', ''update'', ''fork'', ''list_branches'',
                     ''create_branch'', ''protect_branch''}
   \<and> handleRepositoryOperation sample_client sample_marshal (operation_only ''rename'') (0::nat) =
       (Return \<lparr>Content = [\<lparr>Type = ''text'', Text = ''unsupported operation: rename''\<rparr>],
                IsError = True\<rparr> None, [], 0)"
  using unsupported_operation_is_domain_failure
    [of "operation_only ''rename''"
      "\<lparr>Operation = ''rename'', Owner = [], Repo = [], Description = [], Private = False,
        Branch = [], SourceBranch = []\<rparr>" sample_client sample_marshal "0::nat"]
  by (simp add: Unmarshal_operation_only)

text \<open>
  Claim C4. In a create_branch call whose reference resolution succeeds (a nil error
  and a reference that has its object), the handler returns a success envelope with a
  nil error, whatever the creation of the new reference returns: the error of that
  second call is dropped.
\<close>

theorem create_branch_discards_CreateRef_error:
  assumes "Unmarshal_repository a = Inr inp"
    and "Operation inp = ''create_branch''"
    and "Git_GetRef client (Owner inp) (Repo inp) (''refs/heads/'' @ SourceBranch inp) s
           = ((Some rf, None), s1)"
    and "ref_Object rf = Some ob"
    and "Git_CreateRef client (Owner inp) (Repo inp)
           \<lparr>ref_Ref = Some (''refs/heads/'' @ Branch inp),
            ref_Object = Some \<lparr>obj_Type = None, obj_SHA = obj_SHA ob, obj_URL = None\<rparr>\<rparr> s1
           = ((result, err2), s2)"
  shows "fst (handleRepositoryOperation client mm a s) =
           Return \<lparr>Content = [\<lparr>Type = ''json'', Text = mm (ReferenceValue result)\<rparr>],
                   IsError = False\<rparr> None"
  using assms by (simp add: handleRepositoryOperation_def after_switch_def)

theorem create_branch_discards_CreateRef_error_witness:
  "Unmarshal_repository (branch_request ''create_branch'' ''feature'' ''main'') =
     Inr \<lparr>Operation = ''create_branch'', Owner = ''octo'', Repo = ''demo'', Description = [],
          Private = False, Branch = ''feature'', SourceBranch = ''main''\<rparr>
   \<and> Git_GetRef sample_client ''octo'' ''demo'' ''refs/heads/main'' (0::nat) =
       ((Some \<lparr>ref_Ref = Some ''refs/heads/main'',
               ref_Object = Some \<lparr>obj_Type = Some ''commit'', obj_SHA = Some ''c0ffee'',
                                  obj_URL = None\<rparr>\<rparr>, None), 1)
   \<and> Git_CreateRef sample_client ''octo'' ''demo''
         \<lparr>ref_Ref = Some ''refs/heads/feature'',
          ref_Object = Some \<lparr>obj_Type = None, obj_SHA = Some ''c0ffee'', obj_URL = None\<rparr>\<rparr> (1::nat) =
       ((None, Some (ErrorString ''422 Reference already exists'')), 2)
   \<and> fst (handleRepositoryOperation sample_client sample_marshal
            (branch_request ''create_branch'' ''feature'' ''main'') (0::nat)) =
       Return \<lparr>Content = [\<lparr>Type = ''json'', Text = ''null''\<rparr>], IsError = False\<rparr> None"
  using create_branch_discards_CreateRef_error
    [of "branch_request ''create_branch'' ''feature'' ''main''"
      "\<lparr>Operation = ''create_branch'', Owner = ''octo'', Repo = ''demo'', Description = [],
        Private = False, Branch = ''feature'', SourceBranch = ''main''\<rparr>"
      sample_client "0::nat"
      "\<lparr>ref_Ref = Some ''refs/heads/main'',
        ref_Object = Some \<lparr>obj_Type = Some ''commit'', obj_SHA = Some ''c0ffee'', obj_URL = None\<rparr>\<rparr>"
      "1::nat" "\<lparr>obj_Type = Some ''commit'', obj_SHA = Some ''c0ffee'', obj_URL = None\<rparr>"
      None "Some (ErrorString ''422 Reference already exists'')" "2::nat" sample_marshal]
  by (simp add: Unmarshal_branch_request sample_client_def)

text \<open>
  Claim C5. In a create_branch call whose reference resolution fails, the handler
  returns that very error with the empty envelope, and the resolution is the only
  remote call it has issued: the creation of the reference is not attempted. For every
  other operation of the closed set exactly one remote call is issued.
\<close>

theorem create_branch_stops_after_failed_GetRef:
  assumes "Unmarshal_repository a = Inr inp"
  shows "(Operation inp = ''create_branch'' \<and>
          fst (Git_GetRef client (Owner inp) (Repo inp) (''refs/heads/'' @ SourceBranch inp) s)
            = (rf, Some e)
          \<longrightarrow> fst (handleRepositoryOperation client mm a s) = Return emptyResult (Some e)
            \<and> fst (snd (handleRepositoryOperation client mm a s)) =
                [Call_GetRef (Owner inp) (Repo inp) (''refs/heads/'' @ SourceBranch inp)])
       \<and> (Operation inp \<in> {''create'', ''delete'', ''update'', ''fork'', ''list_branches'',
                            ''protect_branch''}
          \<longrightarrow> length (fst (snd (handleRepositoryOperation client mm a s))) = 1)"
  using assms by (auto simp add: handleRepositoryOperation_def Let_def split: prod.splits)

theorem create_branch_stops_after_failed_GetRef_witness:
  "Unmarshal_repository (branch_request ''create_branch'' ''feature'' ''gone'') =
     Inr \<lparr>Operation = ''create_branch'', Owner = ''octo'', Repo = ''demo'', Description = [],
          Private = False, Branch = ''feature'', SourceBranch = ''gone''\<rparr>
   \<and> fst (Git_GetRef sample_client ''octo'' ''demo'' ''refs/heads/gone'' (0::nat)) =
       (None, Some (ErrorString ''404 Not Found''))
   \<and> fst (handleRepositoryOperation sample_client sample_marshal
            (branch_request ''create_branch'' ''feature'' ''gone'') (0::nat)) =
       Return emptyResult (Some (ErrorString ''404 Not Found''))
   \<and> fst (snd (handleRepositoryOperation sample_client sample_marshal
            (branch_request ''create_branch'' ''feature'' ''gone'') (0::nat))) =
       [Call_GetRef ''octo'' ''demo'' ''refs/heads/gone'']
   \<and> Unmarshal_repository (branch_request ''delete'' [] []) =
       Inr \<lparr>Operation = ''delete'', Owner = ''octo'', Repo = ''demo'', Description = [],
            Private = False, Branch = [], SourceBranch = []\<rparr>
   \<and> ''delete'' \<in> {''create'', ''delete'', ''update'', ''fork'', ''list_branches'', ''protect_branch''}
   \<and> length (fst (snd (handleRepositoryOperation sample_client sample_marshal
            (branch_request ''delete'' [] []) (0::nat)))) = 1"
  using create_branch_stops_after_failed_GetRef
    [of "branch_request ''create_branch'' ''feature'' ''gone''"
      "\<lparr>Operation = ''create_branch'', Owner = ''octo'', Repo = ''demo'', Description = [],
        Private = False, Branch = ''feature'', SourceBranch = ''gone''\<rparr>"
      sample_client "0::nat" None "ErrorString ''404 Not Found''" sample_marshal]
    create_branch_stops_after_failed_GetRef
    [of "branch_request ''delete'' [] []"
      "\<lparr>Operation = ''delete'', Owner = ''octo'', Repo = ''demo'', Description = [],
        Private = False, Branch = [], SourceBranch = []\<rparr>"
      sample_client "0::nat" None "ErrorString ''404 Not Found''" sample_marshal]
  by (simp add: Unmarshal_branch_request sample_client_def)

text \<open>
  Claim C10. In a protect_branch call the only remote call is the update of the
  branch protection of the decoded owner, repository and branch, and its request always
  has strict status checks switched on and asks for exactly one approving review; no
  other field of the input reaches the request.
\<close>

theorem protect_branch_request_is_fixed:
  assumes "Unmarshal_repository a = Inr inp" and "Operation inp = ''protect_branch''"
  shows "fst (snd (handleRepositoryOperation client mm a s)) =
           [Call_UpdateBranchProtection (Owner inp) (Repo inp) (Branch inp)
              \<lparr>req_RequiredStatusChecks = Some \<lparr>Strict = True\<rparr>,
               req_RequiredPullRequestReviews = Some \<lparr>RequiredApprovingReviewCount = 1\<rparr>\<rparr>]"
  using assms by (simp add: handleRepositoryOperation_def Let_def split: prod.splits)

theorem protect_branch_request_is_fixed_witness:
  "Unmarshal_repository (branch_request ''protect_branch'' ''main'' ''ignored'') =
     Inr \<lparr>Operation = ''protect_branch'', Owner = ''octo'', Repo = ''demo'', Description = [],
          Private = False, Branch = ''main'', SourceBranch = ''ignored''\<rparr>
   \<and> fst (snd (handleRepositoryOperation sample_client sample_marshal
            (branch_request ''protect_branch'' ''main'' ''ignored'') (0::nat))) =
       [Call_UpdateBranchProtection ''octo'' ''demo'' ''main''
          \<lparr>req_RequiredStatusChecks = Some \<lparr>Strict = True\<rparr>,
           req_RequiredPullRequestReviews = Some \<lparr>RequiredApprovingReviewCount = 1\<rparr>\<rparr>]"
  using protect_branch_request_is_fixed
    [of "branch_request ''protect_branch'' ''main'' ''ignored''"
      "\<lparr>Operation = ''protect_branch'', Owner = ''octo'', Repo = ''demo'', Description = [],
        Private = False, Branch = ''main'', SourceBranch = ''ignored''\<rparr>"
      sample_client sample_marshal "0::nat"]
  by (simp add: Unmarshal_branch_request)

section \<open>Process tools\<close>

text \<open>
  Claim C3, as the code has it. When the run of the process returns an error, the
  shell handler and the version-control handler return, with a nil error, the envelope
  with \<open>is_error = true\<close> whose single text element is the message of that error. The
  output the run has captured is not part of the envelope: the result is the same
  whatever the output is.
\<close>

theorem process_failure_reports_error_message:
  "(Unmarshal_bash a = Inr inp \<and>
      ex (exec_Command ''bash'' ([''-c'', bash_Command inp] @ bash_Args inp)) = (out, Some e) \<longrightarrow>
      fst (BashAllInOneTool_Handler ex a) =
        (\<lparr>Content = [\<lparr>Type = ''text'', Text = Error e\<rparr>], IsError = True\<rparr>, None))
   \<and> (Unmarshal_git a = Inr ginp \<and>
      run (exec_Command ''git'' ([''-C'', git_RepoPath ginp, git_Command ginp] @ git_Args ginp))
        = (out, Some e) \<longrightarrow>
      fst (GitAllInOneTool_Handler g run a) =
        (\<lparr>Content = [\<lparr>Type = ''text'', Text = Error e\<rparr>], IsError = True\<rparr>, None))"
  by (simp add: BashAllInOneTool_Handler_def GitAllInOneTool_Handler_def returnErrorOutput_def)

theorem process_failure_reports_error_message_witness:
  "Unmarshal_bash (bash_request ''exit 128'' []) = Inr \<lparr>bash_Command = ''exit 128'', bash_Args = []\<rparr>
   \<and> failed_run (exec_Command ''bash'' ([''-c'', ''exit 128''] @ [])) =
       (''fatal: cannot change to /tmp/nonexistent: No such file or directory'',
        Some (ErrorString ''exit status 128''))
   \<and> fst (BashAllInOneTool_Handler failed_run (bash_request ''exit 128'' [])) =
       (\<lparr>Content = [\<lparr>Type = ''text'', Text = ''exit status 128''\<rparr>], IsError = True\<rparr>, None)
   \<and> Unmarshal_git (git_request ''status'' ''/tmp/nonexistent'' []) =
       Inr \<lparr>git_Command = ''status'', git_RepoPath = ''/tmp/nonexistent'', git_Args = []\<rparr>
   \<and> failed_run (exec_Command ''git'' ([''-C'', ''/tmp/nonexistent'', ''status''] @ [])) =
       (''fatal: cannot change to /tmp/nonexistent: No such file or directory'',
        Some (ErrorString ''exit status 128''))
   \<and> fst (GitAllInOneTool_Handler (sample_git []) failed_run
            (git_request ''status'' ''/tmp/nonexistent'' [])) =
       (\<lparr>Content = [\<lparr>Type = ''text'', Text = ''exit status 128''\<rparr>], IsError = True\<rparr>, None)"
  using process_failure_reports_error_message
    [where a = "bash_request ''exit 128'' []"
       and inp = "\<lparr>bash_Command = ''exit 128'', bash_Args = []\<rparr>" and ex = failed_run
       and out = "''fatal: cannot change to /tmp/nonexistent: No such file or directory''"
       and e = "ErrorString ''exit status 128''"
       and ginp = "\<lparr>git_Command = [], git_RepoPath = [], git_Args = []\<rparr>"
       and run = failed_run and g = "sample_git []"]
    process_failure_reports_error_message
    [where a = "git_request ''status'' ''/tmp/nonexistent'' []"
       and inp = "\<lparr>bash_Command = [], bash_Args = []\<rparr>" and ex = failed_run
       and out = "''fatal: cannot change to /tmp/nonexistent: No such file or directory''"
       and e = "ErrorString ''exit status 128''"
       and ginp = "\<lparr>git_Command = ''status'', git_RepoPath = ''/tmp/nonexistent'', git_Args = []\<rparr>"
       and run = failed_run and g = "sample_git []"]
  by (simp add: Unmarshal_bash_request Unmarshal_git_request failed_run_def)

text \<open>
  The claim as it was stated asks for the captured output in the text. At the input of
  the spec's own scenario the text is the error's message, and the output does not
  occur in it.
\<close>

theorem process_failure_output_not_reported:
  "fst (GitAllInOneTool_Handler (sample_git []) failed_run (git_request ''status'' ''/tmp/nonexistent'' [])) =
     (\<lparr>Content = [\<lparr>Type = ''text'', Text = ''exit status 128''\<rparr>], IsError = True\<rparr>, None)
   \<and> fst (failed_run (exec_Command ''git'' [''-C'', ''/tmp/nonexistent'', ''status''])) =
       ''fatal: cannot change to /tmp/nonexistent: No such file or directory''
   \<and> \<not> contains ''exit status 128''
         ''fatal: cannot change to /tmp/nonexistent: No such file or directory''"
  by (simp add: GitAllInOneTool_Handler_def Unmarshal_git_request failed_run_def
      returnErrorOutput_def)

text \<open>
  Claim C7. For every input that decodes, the shell handler runs one process, with the
  argument vector \<open>bash -c command args...\<close>, and the version-control handler runs one
  process, with \<open>git -C repo_path command args...\<close>; the arguments of the input follow
  in their order.
\<close>

theorem spawned_argument_vectors:
  "(Unmarshal_bash a = Inr inp \<longrightarrow>
      snd (BashAllInOneTool_Handler ex a) =
        [\<lparr>cmd_Args = ''bash'' # ''-c'' # bash_Command inp # bash_Args inp\<rparr>])
   \<and> (Unmarshal_git a = Inr ginp \<longrightarrow>
      snd (GitAllInOneTool_Handler g run a) =
        [\<lparr>cmd_Args = ''git'' # ''-C'' # git_RepoPath ginp # git_Command ginp # git_Args ginp\<rparr>])"
  by (simp add: BashAllInOneTool_Handler_def GitAllInOneTool_Handler_def exec_Command_def Let_def
      split: prod.splits option.splits)

theorem spawned_argument_vectors_witness:
  "Unmarshal_bash (bash_request ''echo'' [''hello'', ''world'']) =
     Inr \<lparr>bash_Command = ''echo'', bash_Args = [''hello'', ''world'']\<rparr>
   \<and> snd (BashAllInOneTool_Handler echo_run (bash_request ''echo'' [''hello'', ''world''])) =
       [\<lparr>cmd_Args = [''bash'', ''-c'', ''echo'', ''hello'', ''world'']\<rparr>]
   \<and> Unmarshal_git (git_request ''log'' ''/srv/repo'' [''--oneline'', ''-3'']) =
       Inr \<lparr>git_Command = ''log'', git_RepoPath = ''/srv/repo'', git_Args = [''--oneline'', ''-3'']\<rparr>
   \<and> snd (GitAllInOneTool_Handler (sample_git []) echo_run
         (git_request ''log'' ''/srv/repo'' [''--oneline'', ''-3''])) =
       [\<lparr>cmd_Args = [''git'', ''-C'', ''/srv/repo'', ''log'', ''--oneline'', ''-3'']\<rparr>]"
  using spawned_argument_vectors
    [where a = "bash_request ''echo'' [''hello'', ''world'']"
       and inp = "\<lparr>bash_Command = ''echo'', bash_Args = [''hello'', ''world'']\<rparr>"
       and ex = echo_run and ginp = "\<lparr>git_Command = [], git_RepoPath = [], git_Args = []\<rparr>"
       and g = "sample_git []" and run = echo_run]
    spawned_argument_vectors
    [where a = "git_request ''log'' ''/srv/repo'' [''--oneline'', ''-3'']"
       and inp = "\<lparr>bash_Command = [], bash_Args = []\<rparr>" and ex = echo_run
       and ginp = "\<lparr>git_Command = ''log'', git_RepoPath = ''/srv/repo'',
                      git_Args = [''--oneline'', ''-3'']\<rparr>"
       and g = "sample_git []" and run = echo_run]
  by (simp add: Unmarshal_bash_request Unmarshal_git_request)

text \<open>
  Claim C8. The version-control handler does not read the list of blocked commands:
  two tools whose configurations differ in that list only return the same results and
  run the same processes, and a command that is on the list is run like any other.
\<close>

theorem BlockedCommands_not_enforced:
  "(DefaultRepoPath (config g1) = DefaultRepoPath (config g2) \<longrightarrow>
      GitAllInOneTool_Handler g1 run a = GitAllInOneTool_Handler g2 run a)
   \<and> (Unmarshal_git a = Inr inp \<and> git_Command inp \<in> set (BlockedCommands (config g1)) \<longrightarrow>
      snd (GitAllInOneTool_Handler g1 run a) =
        [exec_Command ''git'' ([''-C'', git_RepoPath inp, git_Command inp] @ git_Args inp)])"
  by (simp add: GitAllInOneTool_Handler_def Let_def split: prod.splits option.splits)

theorem BlockedCommands_not_enforced_witness:
  "DefaultRepoPath (config (sample_git [''push''])) = DefaultRepoPath (config (sample_git []))
   \<and> BlockedCommands (config (sample_git [''push''])) \<noteq> BlockedCommands (config (sample_git []))
   \<and> GitAllInOneTool_Handler (sample_git [''push'']) echo_run (git_request ''push'' ''/srv/repo'' []) =
       GitAllInOneTool_Handler (sample_git []) echo_run (git_request ''push'' ''/srv/repo'' [])
   \<and> Unmarshal_git (git_request ''push'' ''/srv/repo'' []) =
       Inr \<lparr>git_Command = ''push'', git_RepoPath = ''/srv/repo'', git_Args = []\<rparr>
   \<and> ''push'' \<in> set (BlockedCommands (config (sample_git [''push''])))
   \<and> snd (GitAllInOneTool_Handler (sample_git [''push'']) echo_run
            (git_request ''push'' ''/srv/repo'' [])) =
       [\<lparr>cmd_Args = [''git'', ''-C'', ''/srv/repo'', ''push'']\<rparr>]"
  using BlockedCommands_not_enforced
    [where ?g1.0 = "sample_git [''push'']" and ?g2.0 = "sample_git []" and run = echo_run
       and a = "git_request ''push'' ''/srv/repo'' []"
       and inp = "\<lparr>git_Command = ''push'', git_RepoPath = ''/srv/repo'', git_Args = []\<rparr>"]
  by (simp add: Unmarshal_git_request sample_git_def exec_Command_def GitAllInOneTool_Handler_def
      echo_run_def)

section \<open>Fields that are missing, and the success envelope\<close>

text \<open>
  Claim C6, as the code has it. A payload that is a JSON object without a member for a
  field the schema requires does not fail the decode step for that reason: the field
  keeps its zero value, the empty string, and the handler goes on with it. The weather
  tool answers for the empty location; the shell tool, whenever the members that are
  there decode, runs \<open>bash -c\<close> with the empty command; the version-control tool runs
  \<open>git -C\<close> with the empty path; the repository tool reports the empty operation as
  unsupported, a domain failure with a nil error.
\<close>

theorem missing_required_field_is_zero_valued:
  "((\<forall>m\<in>set ms. \<not> key_matches (fst m) ''location'') \<longrightarrow>
      GetWeather_Handler (Valid (JObject ms)) =
        (\<lparr>Content = [\<lparr>Type = ''text'',
                       Text = ''Weather in : Sunny, 72'' @ [CHR 0xC2, CHR 0xB0] @ ''F''\<rparr>],
          IsError = False\<rparr>, None))
   \<and> (Unmarshal_bash (Valid (JObject ms)) = Inr inp \<and>
        (\<forall>m\<in>set ms. \<not> key_matches (fst m) ''command'') \<longrightarrow>
      snd (BashAllInOneTool_Handler ex (Valid (JObject ms))) =
        [\<lparr>cmd_Args = ''bash'' # ''-c'' # [] # bash_Args inp\<rparr>])
   \<and> (Unmarshal_git (Valid (JObject ms)) = Inr ginp \<and>
        (\<forall>m\<in>set ms. \<not> key_matches (fst m) ''repo_path'') \<longrightarrow>
      snd (GitAllInOneTool_Handler g run (Valid (JObject ms))) =
        [\<lparr>cmd_Args = ''git'' # ''-C'' # [] # git_Command ginp # git_Args ginp\<rparr>])
   \<and> (Unmarshal_repository (Valid (JObject ms)) = Inr rinp \<and>
        (\<forall>m\<in>set ms. \<not> key_matches (fst m) ''operation'') \<longrightarrow>
      handleRepositoryOperation client mm (Valid (JObject ms)) s =
        (Return \<lparr>Content = [\<lparr>Type = ''text'', Text = ''unsupported operation: ''\<rparr>],
                 IsError = True\<rparr> None, [], s))"
proof (intro conjI impI)
  assume "\<forall>m\<in>set ms. \<not> key_matches (fst m) ''location''"
  then have "weather_members ms \<lparr>Location = []\<rparr> None = (\<lparr>Location = []\<rparr>, None)"
    by (rule weather_members_absent)
  then show "GetWeather_Handler (Valid (JObject ms)) =
        (\<lparr>Content = [\<lparr>Type = ''text'',
                       Text = ''Weather in : Sunny, 72'' @ [CHR 0xC2, CHR 0xB0] @ ''F''\<rparr>],
          IsError = False\<rparr>, None)"
    by (simp add: GetWeather_Handler_def Unmarshal_weather_def Unmarshal_def)
next
  assume h: "Unmarshal_bash (Valid (JObject ms)) = Inr inp \<and>
             (\<forall>m\<in>set ms. \<not> key_matches (fst m) ''command'')"
  then have "inp = fst (bash_members ms \<lparr>bash_Command = [], bash_Args = []\<rparr> None)"
    by (auto simp: Unmarshal_bash_def dest: Unmarshal_object_Inr)
  with h have "bash_Command inp = []"
    by (simp add: bash_members_command_absent)
  with h show "snd (BashAllInOneTool_Handler ex (Valid (JObject ms))) =
        [\<lparr>cmd_Args = ''bash'' # ''-c'' # [] # bash_Args inp\<rparr>]"
    by (simp add: BashAllInOneTool_Handler_def exec_Command_def Let_def
        split: prod.splits option.splits)
next
  assume h: "Unmarshal_git (Valid (JObject ms)) = Inr ginp \<and>
             (\<forall>m\<in>set ms. \<not> key_matches (fst m) ''repo_path'')"
  then have "ginp = fst (git_members ms \<lparr>git_Command = [], git_RepoPath = [], git_Args = []\<rparr> None)"
    by (auto simp: Unmarshal_git_def dest: Unmarshal_object_Inr)
  with h have "git_RepoPath ginp = []"
    by (simp add: git_members_repo_path_absent)
  with h show "snd (GitAllInOneTool_Handler g run (Valid (JObject ms))) =
        [\<lparr>cmd_Args = ''git'' # ''-C'' # [] # git_Command ginp # git_Args ginp\<rparr>]"
    by (simp add: GitAllInOneTool_Handler_def exec_Command_def Let_def
        split: prod.splits option.splits)
next
  assume h: "Unmarshal_repository (Valid (JObject ms)) = Inr rinp \<and>
             (\<forall>m\<in>set ms. \<not> key_matches (fst m) ''operation'')"
  then have "rinp = fst (repository_members ms
      \<lparr>Operation = [], Owner = [], Repo = [], Description = [], Private = False, Branch = [],
       SourceBranch = []\<rparr> None)"
    by (auto simp: Unmarshal_repository_def dest: Unmarshal_object_Inr)
  with h have "Operation rinp = []"
    by (simp add: repository_members_operation_absent)
  with h show "handleRepositoryOperation client mm (Valid (JObject ms)) s =
        (Return \<lparr>Content = [\<lparr>Type = ''text'', Text = ''unsupported operation: ''\<rparr>],
                 IsError = True\<rparr> None, [], s)"
    by (simp add: handleRepositoryOperation_def returnErrorOutput_def)
qed

lemma only_args_decodes:
  "Unmarshal_bash (Valid (JObject [(''args'', JArray [JString ''x''])])) =
     Inr \<lparr>bash_Command = [], bash_Args = [''x'']\<rparr>"
  "Unmarshal_git (Valid (JObject [(''command'', JString ''status'')])) =
     Inr \<lparr>git_Command = ''status'', git_RepoPath = [], git_Args = []\<rparr>"
  "Unmarshal_repository (Valid (JObject [(''owner'', JString ''octo'')])) =
     Inr \<lparr>Operation = [], Owner = ''octo'', Repo = [], Description = [], Private = False,
          Branch = [], SourceBranch = []\<rparr>"
  by (simp_all add: unmarshal_defs)

lemma sample_keys:
  "\<not> key_matches ''city'' ''location''" "\<not> key_matches ''args'' ''command''"
  "\<not> key_matches ''command'' ''repo_path''" "\<not> key_matches ''owner'' ''operation''"
  by (simp_all add: key_matches_def upper_def)

theorem missing_required_field_is_zero_valued_witness:
  "\<not> key_matches ''city'' ''location''
   \<and> GetWeather_Handler (Valid (JObject [(''city'', JString ''Paris'')])) =
        (\<lparr>Content = [\<lparr>Type = ''text'',
                       Text = ''Weather in : Sunny, 72'' @ [CHR 0xC2, CHR 0xB0] @ ''F''\<rparr>],
          IsError = False\<rparr>, None)
   \<and> Unmarshal_bash (Valid (JObject [(''args'', JArray [JString ''x''])])) =
        Inr \<lparr>bash_Command = [], bash_Args = [''x'']\<rparr>
   \<and> \<not> key_matches ''args'' ''command''
   \<and> snd (BashAllInOneTool_Handler echo_run (Valid (JObject [(''args'', JArray [JString ''x''])]))) =
        [\<lparr>cmd_Args = [''bash'', ''-c'', [], ''x'']\<rparr>]
   \<and> Unmarshal_git (Valid (JObject [(''command'', JString ''status'')])) =
        Inr \<lparr>git_Command = ''status'', git_RepoPath = [], git_Args = []\<rparr>
   \<and> \<not> key_matches ''command'' ''repo_path''
   \<and> snd (GitAllInOneTool_Handler (sample_git []) echo_run
            (Valid (JObject [(''command'', JString ''status'')]))) =
        [\<lparr>cmd_Args = [''git'', ''-C'', [], ''status'']\<rparr>]
   \<and> Unmarshal_repository (Valid (JObject [(''owner'', JString ''octo'')])) =
        Inr \<lparr>Operation = [], Owner = ''octo'', Repo = [], Description = [], Private = False,
             Branch = [], SourceBranch = []\<rparr>
   \<and> \<not> key_matches ''owner'' ''operation''
   \<and> handleRepositoryOperation sample_client sample_marshal
        (Valid (JObject [(''owner'', JString ''octo'')])) (0::nat) =
        (Return \<lparr>Content = [\<lparr>Type = ''text'', Text = ''unsupported operation: ''\<rparr>],
                 IsError = True\<rparr> None, [], 0)"
  using missing_required_field_is_zero_valued
    [where ms = "[(''city'', JString ''Paris'')]"
       and inp = "\<lparr>bash_Command = [], bash_Args = []\<rparr>" and ex = echo_run
       and ginp = "\<lparr>git_Command = [], git_RepoPath = [], git_Args = []\<rparr>"
       and g = "sample_git []" and run = echo_run
       and rinp = "\<lparr>Operation = [], Owner = [], Repo = [], Description = [], Private = False,
                      Branch = [], SourceBranch = []\<rparr>"
       and client = sample_client and mm = sample_marshal and s = "0::nat"]
    missing_required_field_is_zero_valued
    [where ms = "[(''args'', JArray [JString ''x''])]"
       and inp = "\<lparr>bash_Command = [], bash_Args = [''x'']\<rparr>" and ex = echo_run
       and ginp = "\<lparr>git_Command = [], git_RepoPath = [], git_Args = []\<rparr>"
       and g = "sample_git []" and run = echo_run
       and rinp = "\<lparr>Operation = [], Owner = [], Repo = [], Description = [], Private = False,
                      Branch = [], SourceBranch = []\<rparr>"
       and client = sample_client and mm = sample_marshal and s = "0::nat"]
    missing_required_field_is_zero_valued
    [where ms = "[(''command'', JString ''status'')]"
       and inp = "\<lparr>bash_Command = [], bash_Args = []\<rparr>" and ex = echo_run
       and ginp = "\<lparr>git_Command = ''status'', git_RepoPath = [], git_Args = []\<rparr>"
       and g = "sample_git []" and run = echo_run
       and rinp = "\<lparr>Operation = [], Owner = [], Repo = [], Description = [], Private = False,
                      Branch = [], SourceBranch = []\<rparr>"
       and client = sample_client and mm = sample_marshal and s = "0::nat"]
    missing_required_field_is_zero_valued
    [where ms = "[(''owner'', JString ''octo'')]"
       and inp = "\<lparr>bash_Command = [], bash_Args = []\<rparr>" and ex = echo_run
       and ginp = "\<lparr>git_Command = [], git_RepoPath = [], git_Args = []\<rparr>"
       and g = "sample_git []" and run = echo_run
       and rinp = "\<lparr>Operation = [], Owner = ''octo'', Repo = [], Description = [], Private = False,
                      Branch = [], SourceBranch = []\<rparr>"
       and client = sample_client and mm = sample_marshal and s = "0::nat"]
  by (simp add: only_args_decodes sample_keys exec_Command_def)

text \<open>
  The claim as it was stated makes the handler fail. The empty object is well-formed
  JSON without the required \<open>location\<close>, and the weather handler returns a success
  envelope and a nil error for it; so does the shell handler for the empty object,
  after running \<open>bash -c\<close> with the empty command.
\<close>

theorem missing_required_field_is_accepted:
  "GetWeather_Handler (Valid (JObject [])) =
     (\<lparr>Content = [\<lparr>Type = ''text'',
                    Text = ''Weather in : Sunny, 72'' @ [CHR 0xC2, CHR 0xB0] @ ''F''\<rparr>],
       IsError = False\<rparr>, None)
   \<and> BashAllInOneTool_Handler echo_run (Valid (JObject [])) =
     ((\<lparr>Content = [\<lparr>Type = ''text'', Text = ''bash-c''\<rparr>], IsError = False\<rparr>, None),
      [\<lparr>cmd_Args = ''bash'' # ''-c'' # [] # []\<rparr>])"
  by (simp add: GetWeather_Handler_def BashAllInOneTool_Handler_def unmarshal_defs
      exec_Command_def echo_run_def)

text \<open>
  Claim C9. Every success return of a handler (a nil error and \<open>is_error = false\<close>)
  carries exactly one content element: of type \<open>text\<close> for the weather, shell and
  version-control tools, of type \<open>json\<close> for the repository tool.
\<close>

theorem success_has_single_content:
  "(GetWeather_Handler a = (res, None) \<and> \<not> IsError res \<longrightarrow> single_content ''text'' res)
   \<and> (fst (BashAllInOneTool_Handler ex a) = (res, None) \<and> \<not> IsError res \<longrightarrow>
        single_content ''text'' res)
   \<and> (fst (GitAllInOneTool_Handler g run a) = (res, None) \<and> \<not> IsError res \<longrightarrow>
        single_content ''text'' res)
   \<and> (fst (handleRepositoryOperation client mm a s) = Return res None \<and> \<not> IsError res \<longrightarrow>
        single_content ''json'' res)"
proof (intro conjI impI)
  assume "GetWeather_Handler a = (res, None) \<and> \<not> IsError res"
  then show "single_content ''text'' res"
    by (auto simp: GetWeather_Handler_def single_content_def split: sum.splits)
next
  assume "fst (BashAllInOneTool_Handler ex a) = (res, None) \<and> \<not> IsError res"
  then show "single_content ''text'' res"
    by (auto simp: BashAllInOneTool_Handler_def single_content_def returnErrorOutput_def Let_def
        split: sum.splits prod.splits option.splits)
next
  assume "fst (GitAllInOneTool_Handler g run a) = (res, None) \<and> \<not> IsError res"
  then show "single_content ''text'' res"
    by (auto simp: GitAllInOneTool_Handler_def single_content_def returnErrorOutput_def Let_def
        split: sum.splits prod.splits option.splits)
next
  assume "fst (handleRepositoryOperation client mm a s) = Return res None \<and> \<not> IsError res"
  with handler_failure_or_json [of client mm a s] show "single_content ''json'' res"
    by (simp add: failure_or_json_def)
qed

theorem success_has_single_content_witness:
  "GetWeather_Handler (Valid (JObject [(''location'', JString ''Paris'')])) =
     (\<lparr>Content = [\<lparr>Type = ''text'',
                    Text = ''Weather in Paris: Sunny, 72'' @ [CHR 0xC2, CHR 0xB0] @ ''F''\<rparr>],
       IsError = False\<rparr>, None)
   \<and> single_content ''text''
       \<lparr>Content = [\<lparr>Type = ''text'',
                    Text = ''Weather in Paris: Sunny, 72'' @ [CHR 0xC2, CHR 0xB0] @ ''F''\<rparr>],
        IsError = False\<rparr>
   \<and> fst (BashAllInOneTool_Handler echo_run (bash_request ''true'' [])) =
       (\<lparr>Content = [\<lparr>Type = ''text'', Text = ''bash-ctrue''\<rparr>], IsError = False\<rparr>, None)
   \<and> single_content ''text'' \<lparr>Content = [\<lparr>Type = ''text'', Text = ''bash-ctrue''\<rparr>], IsError = False\<rparr>
   \<and> fst (GitAllInOneTool_Handler (sample_git []) echo_run (git_request ''log'' ''/r'' [])) =
       (\<lparr>Content = [\<lparr>Type = ''text'', Text = ''git-C/rlog''\<rparr>], IsError = False\<rparr>, None)
   \<and> single_content ''text'' \<lparr>Content = [\<lparr>Type = ''text'', Text = ''git-C/rlog''\<rparr>], IsError = False\<rparr>
   \<and> fst (handleRepositoryOperation sample_client sample_marshal
            (branch_request ''list_branches'' [] []) (0::nat)) =
       Return \<lparr>Content = [\<lparr>Type = ''json'', Text = ''branches''\<rparr>], IsError = False\<rparr> None
   \<and> single_content ''json'' \<lparr>Content = [\<lparr>Type = ''json'', Text = ''branches''\<rparr>], IsError = False\<rparr>"
proof -
  have w: "GetWeather_Handler (Valid (JObject [(''location'', JString ''Paris'')])) =
     (\<lparr>Content = [\<lparr>Type = ''text'',
                    Text = ''Weather in Paris: Sunny, 72'' @ [CHR 0xC2, CHR 0xB0] @ ''F''\<rparr>],
       IsError = False\<rparr>, None)"
    by (simp add: GetWeather_Handler_def Unmarshal_weather_location)
  have b: "fst (BashAllInOneTool_Handler echo_run (bash_request ''true'' [])) =
       (\<lparr>Content = [\<lparr>Type = ''text'', Text = ''bash-ctrue''\<rparr>], IsError = False\<rparr>, None)"
    by (simp add: BashAllInOneTool_Handler_def Unmarshal_bash_request echo_run_def exec_Command_def)
  have g: "fst (GitAllInOneTool_Handler (sample_git []) echo_run (git_request ''log'' ''/r'' [])) =
       (\<lparr>Content = [\<lparr>Type = ''text'', Text = ''git-C/rlog''\<rparr>], IsError = False\<rparr>, None)"
    by (simp add: GitAllInOneTool_Handler_def Unmarshal_git_request echo_run_def exec_Command_def)
  have r: "fst (handleRepositoryOperation sample_client sample_marshal
            (branch_request ''list_branches'' [] []) (0::nat)) =
       Return \<lparr>Content = [\<lparr>Type = ''json'', Text = ''branches''\<rparr>], IsError = False\<rparr> None"
    by (simp add: handleRepositoryOperation_def Unmarshal_branch_request sample_client_def
        after_switch_def)
  show ?thesis
    using w b g r
      success_has_single_content
        [where a = "Valid (JObject [(''location'', JString ''Paris'')])"
           and res = "\<lparr>Content = [\<lparr>Type = ''text'',
                    Text = ''Weather in Paris: Sunny, 72'' @ [CHR 0xC2, CHR 0xB0] @ ''F''\<rparr>],
                    IsError = False\<rparr>"
           and ex = echo_run and g = "sample_git []" and run = echo_run and client = sample_client
           and mm = sample_marshal and s = "0::nat"]
      success_has_single_content
        [where a = "bash_request ''true'' []"
           and res = "\<lparr>Content = [\<lparr>Type = ''text'', Text = ''bash-ctrue''\<rparr>], IsError = False\<rparr>"
           and ex = echo_run and g = "sample_git []" and run = echo_run and client = sample_client
           and mm = sample_marshal and s = "0::nat"]
      success_has_single_content
        [where a = "git_request ''log'' ''/r'' []"
           and res = "\<lparr>Content = [\<lparr>Type = ''text'', Text = ''git-C/rlog''\<rparr>], IsError = False\<rparr>"
           and ex = echo_run and g = "sample_git []" and run = echo_run and client = sample_client
           and mm = sample_marshal and s = "0::nat"]
      success_has_single_content
        [where a = "branch_request ''list_branches'' [] []"
           and res = "\<lparr>Content = [\<lparr>Type = ''json'', Text = ''branches''\<rparr>], IsError = False\<rparr>"
           and ex = echo_run and g = "sample_git []" and run = echo_run and client = sample_client
           and mm = sample_marshal and s = "0::nat"]
    by simp
qed

end
